theory Spec2Isabelle
  imports Complex_Main
begin

section \<open>Numbers and errors\<close>

text \<open>
  Rewards, returns and network outputs are NumPy / TensorFlow floating-point numbers in the
  source.  They are modelled by the real numbers they stand for: rounding is not part of
  the model, every other behaviour of the source is.  The one place where the source turns
  finite numbers into non-finite ones is the element-wise division of an array by a scalar,
  which NumPy does not raise on (it warns and stores \<open>nan\<close> or \<open>inf\<close>); the result of that
  division is therefore a value of \<open>npfloat\<close>, not an exception.
\<close>

datatype npfloat = Finite real | PosInf | NegInf | NaN


text \<open>The exceptions the modelled code can raise.\<close>

datatype error = ValueError | ZeroDivisionError | UnboundLocalError | IndexError

text \<open>\<open>x / s\<close> on float arrays: the guarded division.  \<open>0 / 0\<close> is \<open>nan\<close>, \<open>x / 0\<close> is
  an infinity with the sign of \<open>x\<close> (the divisor below is a standard deviation, a
  non-negative zero).\<close>

definition np_true_divide :: "real \<Rightarrow> real \<Rightarrow> npfloat" where
  "np_true_divide x s =
     (if s \<noteq> 0 then Finite (x / s)
      else if x = 0 then NaN
      else if 0 < x then PosInf else NegInf)"

text \<open>\<open>np.mean\<close> and \<open>np.std\<close> of a non-empty float array (\<open>np.std\<close> is the population
  standard deviation, \<open>sqrt(mean(abs(x - x.mean())**2))\<close>).  Both are only applied to
  non-empty arrays below.\<close>

definition np_mean :: "real list \<Rightarrow> real" where
  "np_mean xs = sum_list xs / real (length xs)"

definition np_std :: "real list \<Rightarrow> real" where
  "np_std xs = sqrt (np_mean (map (\<lambda>x. \<bar>x - np_mean xs\<bar> ^ 2) xs))"

definition zeros_like :: "real list \<Rightarrow> real list" where
  "zeros_like xs = replicate (length xs) 0"

section \<open>Policy gradient: discounting and normalising the episode rewards\<close>

text \<open>
  \<^verbatim>\<open>
  for t in reversed(range(0, len(reward_list))):
      running_add = running_add * gamma + reward_list[t]
      discounted_ep_rs[t] = running_add
  \<close>
  The first numeric argument counts the indices still to visit: with \<open>Suc t\<close> left the
  loop body runs at index \<open>t\<close>.  The index is always below the length of both arrays.
\<close>

fun discount_loop :: "real list \<Rightarrow> real \<Rightarrow> nat \<Rightarrow> real \<Rightarrow> real list \<Rightarrow> real list" where
  "discount_loop reward_list gamma 0 running_add discounted_ep_rs = discounted_ep_rs"
| "discount_loop reward_list gamma (Suc t) running_add discounted_ep_rs =
     (let running_add = running_add * gamma + reward_list ! t
      in discount_loop reward_list gamma t running_add (discounted_ep_rs[t := running_add]))"

text \<open>The array \<open>discounted_ep_rs\<close> when the loop has ended: it starts as
  \<open>np.zeros_like(reward_list)\<close>, with \<open>running_add = 0\<close>.\<close>

definition discounted_ep_rs :: "real list \<Rightarrow> real \<Rightarrow> real list" where
  "discounted_ep_rs reward_list gamma =
     discount_loop reward_list gamma (length reward_list) 0 (zeros_like reward_list)"

text \<open>
  \<open>PG._discount_and_norm_rewards\<close>.  The caller passes a float array (\<open>update\<close> builds it
  from \<open>np.array(r, np.float32)\<close>), so \<open>np.zeros_like\<close> gives a float array and the
  in-place \<open>-=\<close> and \<open>/=\<close> are float operations.  The standard deviation is taken of the
  array after the mean has been subtracted in place.  On an empty array NumPy's mean and
  standard deviation are \<open>nan\<close> (with a warning) and the element-wise operations leave the
  empty array as it is.
\<close>

definition discount_and_norm_rewards :: "real list \<Rightarrow> real \<Rightarrow> npfloat list" where
  "discount_and_norm_rewards reward_list gamma =
     (let d = discounted_ep_rs reward_list gamma
      in if d = [] then []
         else
           let d = map (\<lambda>x. x - np_mean d) d;
               std = np_std d
           in map (\<lambda>x. np_true_divide x std) d)"

subsection \<open>The textbook formula\<close>




section \<open>Policy gradient: the \<open>PG\<close> class\<close>

text \<open>
  The object state of a \<open>PG\<close> instance: the policy network (\<open>self.model\<close>, of a type
  \<open>'w\<close> of network weights), the optimizer and the transition buffer.  A transition is the
  list \<open>[state, action, reward]\<close> that \<open>store_transition\<close> builds; rewards are scalars.
\<close>

record ('o, 'a, 'w, 'p) pg =
  model :: 'w
  optimizer :: 'p
  buffer :: "('o \<times> 'a \<times> real) list"

text \<open>
  What \<open>pg.py\<close> calls and does not define: the environment (\<open>reset\<close>, \<open>step\<close>, \<open>render\<close>,
  \<open>seed\<close>), the random-number generators of NumPy and TensorFlow, the policy network and
  the gradient machinery of the framework, and the helpers \<open>save_model\<close>, \<open>load_model\<close>
  and \<open>plot_save_log\<close> of \<open>common.utils\<close>.  They are parameters of the model.  Everything
  outside the \<open>PG\<close> object that they read or change (environment state, generator state,
  files) is one value of type \<open>'x\<close>, threaded through the calls.  The calls are taken to
  return; the exceptions modelled are the ones \<open>pg.py\<close> itself gives rise to.
\<close>

record ('x, 'o, 'a, 'w, 'p) externals =
  env_reset :: "'x \<Rightarrow> 'x \<times> 'o"
  env_step :: "'a \<Rightarrow> 'x \<Rightarrow> 'x \<times> 'o \<times> real \<times> bool"
  env_render :: "'x \<Rightarrow> 'x"
  env_seed :: "int \<Rightarrow> 'x \<Rightarrow> 'x"
  np_random_seed :: "int \<Rightarrow> 'x \<Rightarrow> 'x"
  tf_random_set_seed :: "int \<Rightarrow> 'x \<Rightarrow> 'x"
  policy_sample :: "'w \<Rightarrow> 'o \<Rightarrow> 'x \<Rightarrow> 'x \<times> 'a"
  policy_greedy :: "'w \<Rightarrow> 'o \<Rightarrow> 'a"
  apply_gradients :: "'p \<Rightarrow> 'w \<Rightarrow> 'o list \<Rightarrow> 'a list \<Rightarrow> npfloat list \<Rightarrow> 'p \<times> 'w"
  save_model :: "'w \<Rightarrow> 'x \<Rightarrow> 'x"
  load_model :: "'x \<Rightarrow> 'w \<Rightarrow> 'w"
  plot_save_log :: "real list \<Rightarrow> 'x \<Rightarrow> 'x"

text \<open>\<open>choose_action\<close> samples from the policy (it draws from the framework's generator),
  \<open>choose_action_greedy\<close> does not.\<close>

definition choose_action ::
  "('x, 'o, 'a, 'w, 'p) externals \<Rightarrow> ('o, 'a, 'w, 'p) pg \<Rightarrow> 'o \<Rightarrow> 'x \<Rightarrow> 'x \<times> 'a" where
  "choose_action X self s x = policy_sample X (model self) s x"

definition choose_action_greedy ::
  "('x, 'o, 'a, 'w, 'p) externals \<Rightarrow> ('o, 'a, 'w, 'p) pg \<Rightarrow> 'o \<Rightarrow> 'a" where
  "choose_action_greedy X self s = policy_greedy X (model self) s"

text \<open>\<open>self.buffer.append([s, a, r])\<close>\<close>

definition store_transition ::
  "('o, 'a, 'w, 'p) pg \<Rightarrow> 'o \<Rightarrow> 'a \<Rightarrow> real \<Rightarrow> ('o, 'a, 'w, 'p) pg" where
  "store_transition self s a r = self\<lparr>buffer := buffer self @ [(s, a, r)]\<rparr>"

text \<open>
  \<open>PG.update\<close>.  \<open>s, a, r = zip(*self.buffer)\<close> unpacks three columns; on an empty buffer
  \<open>zip()\<close> yields nothing and the unpacking raises \<open>ValueError\<close>.  Otherwise the rewards are
  discounted and normalised, the framework computes the loss and applies the gradient, the
  buffer is reset to the empty list and the normalised returns are returned.
\<close>

definition update ::
  "('x, 'o, 'a, 'w, 'p) externals \<Rightarrow> ('o, 'a, 'w, 'p) pg \<Rightarrow> real
     \<Rightarrow> error + ('o, 'a, 'w, 'p) pg \<times> npfloat list" where
  "update X self gamma =
     (if buffer self = [] then Inl ValueError
      else
        let s = map fst (buffer self);
            a = map (\<lambda>t. fst (snd t)) (buffer self);
            r = map (\<lambda>t. snd (snd t)) (buffer self);
            discounted_ep_rs_norm = discount_and_norm_rewards r gamma;
            (opt, weights) = apply_gradients X (optimizer self) (model self) s a discounted_ep_rs_norm
        in Inr (self\<lparr>model := weights, optimizer := opt, buffer := []\<rparr>, discounted_ep_rs_norm))"

definition save ::
  "('x, 'o, 'a, 'w, 'p) externals \<Rightarrow> ('o, 'a, 'w, 'p) pg \<Rightarrow> 'x \<Rightarrow> 'x" where
  "save X self x = save_model X (model self) x"

definition load_ckpt ::
  "('x, 'o, 'a, 'w, 'p) externals \<Rightarrow> ('o, 'a, 'w, 'p) pg \<Rightarrow> 'x \<Rightarrow> ('o, 'a, 'w, 'p) pg" where
  "load_ckpt X self x = self\<lparr>model := load_model X x (model self)\<rparr>"

section \<open>Policy gradient: \<open>PG.learn\<close>\<close>

text \<open>The arguments of \<open>learn\<close> after \<open>env\<close>.  \<open>seed\<close> is \<open>None\<close> or an integer.\<close>

record learn_args =
  train_episodes :: int
  test_episodes :: int
  max_steps :: int
  save_interval :: int
  mode :: string
  render :: bool
  gamma :: real
  seed :: "int option"

definition default_args :: learn_args where
  "default_args =
     \<lparr>train_episodes = 300, test_episodes = 200, max_steps = 3000, save_interval = 100,
      mode = ''train'', render = False, gamma = 95 / 100, seed = None\<rparr>"

text \<open>
  Every call that \<open>learn\<close> makes is recorded, in order, in a trace.  \<open>EnvStep\<close> carries the
  \<open>done\<close> flag the step returned; \<open>PrintEpisode\<close> the episode index, the episode total and
  the episode's reward sum that the line prints (the running time it also prints is not
  modelled); \<open>PlotSaveLog\<close> the reward buffer handed to \<open>plot_save_log\<close>.
\<close>

datatype event =
    NpRandomSeed int | TfRandomSetSeed int | EnvSeed int
  | EnvReset | EnvRender | EnvStep bool
  | ChooseAction | ChooseActionGreedy | StoreTransition | Update
  | Save | LoadCkpt
  | PrintEpisode int int real | PrintUnknownMode
  | PlotSaveLog "real list"

text \<open>The state of a run of \<open>learn\<close>: the outside world, the \<open>PG\<close> object, the trace, the
  local variables \<open>running_reward\<close> (\<open>None\<close> while the name is unbound) and
  \<open>reward_buffer\<close>, and the exception that ended the run, if one did.\<close>

record ('x, 'o, 'a, 'w, 'p) lstate =
  world :: 'x
  agent :: "('o, 'a, 'w, 'p) pg"
  trace :: "event list"
  running_reward :: "real option"
  reward_buffer :: "real list"
  raised :: "error option"

definition emit :: "event \<Rightarrow> ('x, 'o, 'a, 'w, 'p) lstate \<Rightarrow> ('x, 'o, 'a, 'w, 'p) lstate" where
  "emit e st = st\<lparr>trace := trace st @ [e]\<rparr>"

definition call_env_reset ::
  "('x, 'o, 'a, 'w, 'p) externals \<Rightarrow> ('x, 'o, 'a, 'w, 'p) lstate
     \<Rightarrow> ('x, 'o, 'a, 'w, 'p) lstate \<times> 'o" where
  "call_env_reset X st =
     (let (x, observation) = env_reset X (world st)
      in (emit EnvReset (st\<lparr>world := x\<rparr>), observation))"

definition call_env_render ::
  "('x, 'o, 'a, 'w, 'p) externals \<Rightarrow> ('x, 'o, 'a, 'w, 'p) lstate \<Rightarrow> ('x, 'o, 'a, 'w, 'p) lstate" where
  "call_env_render X st = emit EnvRender (st\<lparr>world := env_render X (world st)\<rparr>)"

definition call_env_step ::
  "('x, 'o, 'a, 'w, 'p) externals \<Rightarrow> 'a \<Rightarrow> ('x, 'o, 'a, 'w, 'p) lstate
     \<Rightarrow> ('x, 'o, 'a, 'w, 'p) lstate \<times> 'o \<times> real \<times> bool" where
  "call_env_step X action st =
     (let (x, observation, reward, done) = env_step X action (world st)
      in (emit (EnvStep done) (st\<lparr>world := x\<rparr>), observation, reward, done))"

definition call_choose_action ::
  "('x, 'o, 'a, 'w, 'p) externals \<Rightarrow> 'o \<Rightarrow> ('x, 'o, 'a, 'w, 'p) lstate
     \<Rightarrow> ('x, 'o, 'a, 'w, 'p) lstate \<times> 'a" where
  "call_choose_action X observation st =
     (let (x, action) = choose_action X (agent st) observation (world st)
      in (emit ChooseAction (st\<lparr>world := x\<rparr>), action))"

definition call_choose_action_greedy ::
  "('x, 'o, 'a, 'w, 'p) externals \<Rightarrow> 'o \<Rightarrow> ('x, 'o, 'a, 'w, 'p) lstate
     \<Rightarrow> ('x, 'o, 'a, 'w, 'p) lstate \<times> 'a" where
  "call_choose_action_greedy X observation st =
     (emit ChooseActionGreedy st, choose_action_greedy X (agent st) observation)"

definition call_store_transition ::
  "'o \<Rightarrow> 'a \<Rightarrow> real \<Rightarrow> ('x, 'o, 'a, 'w, 'p) lstate \<Rightarrow> ('x, 'o, 'a, 'w, 'p) lstate" where
  "call_store_transition s a r st =
     emit StoreTransition (st\<lparr>agent := store_transition (agent st) s a r\<rparr>)"

text \<open>The call \<open>self.update(gamma)\<close>: an exception of \<open>update\<close> ends the run.\<close>

definition call_update ::
  "('x, 'o, 'a, 'w, 'p) externals \<Rightarrow> real \<Rightarrow> ('x, 'o, 'a, 'w, 'p) lstate
     \<Rightarrow> ('x, 'o, 'a, 'w, 'p) lstate" where
  "call_update X g st =
     (case update X (agent st) g of
        Inl e \<Rightarrow> (emit Update st)\<lparr>raised := Some e\<rparr>
      | Inr (self, _) \<Rightarrow> emit Update (st\<lparr>agent := self\<rparr>))"

definition call_save ::
  "('x, 'o, 'a, 'w, 'p) externals \<Rightarrow> ('x, 'o, 'a, 'w, 'p) lstate \<Rightarrow> ('x, 'o, 'a, 'w, 'p) lstate" where
  "call_save X st = emit Save (st\<lparr>world := save X (agent st) (world st)\<rparr>)"

definition call_load_ckpt ::
  "('x, 'o, 'a, 'w, 'p) externals \<Rightarrow> ('x, 'o, 'a, 'w, 'p) lstate \<Rightarrow> ('x, 'o, 'a, 'w, 'p) lstate" where
  "call_load_ckpt X st = emit LoadCkpt (st\<lparr>agent := load_ckpt X (agent st) (world st)\<rparr>)"

definition call_plot_save_log ::
  "('x, 'o, 'a, 'w, 'p) externals \<Rightarrow> ('x, 'o, 'a, 'w, 'p) lstate \<Rightarrow> ('x, 'o, 'a, 'w, 'p) lstate" where
  "call_plot_save_log X st =
     emit (PlotSaveLog (reward_buffer st))
       (st\<lparr>world := plot_save_log X (reward_buffer st) (world st)\<rparr>)"

text \<open>
  \<^verbatim>\<open>
  if seed:
      np.random.seed(seed); tf.random.set_seed(seed); env.seed(seed)
  \<close>
  \<open>None\<close> and \<open>0\<close> are the falsy values of the argument.
\<close>

fun truthy :: "int option \<Rightarrow> bool" where
  "truthy None = False"
| "truthy (Some n) = (n \<noteq> 0)"

definition seed_all ::
  "('x, 'o, 'a, 'w, 'p) externals \<Rightarrow> int \<Rightarrow> ('x, 'o, 'a, 'w, 'p) lstate
     \<Rightarrow> ('x, 'o, 'a, 'w, 'p) lstate" where
  "seed_all X n st =
     (let st = emit (NpRandomSeed n) (st\<lparr>world := np_random_seed X n (world st)\<rparr>);
          st = emit (TfRandomSetSeed n) (st\<lparr>world := tf_random_set_seed X n (world st)\<rparr>)
      in emit (EnvSeed n) (st\<lparr>world := env_seed X n (world st)\<rparr>))"

definition seed_if_truthy ::
  "('x, 'o, 'a, 'w, 'p) externals \<Rightarrow> int option \<Rightarrow> ('x, 'o, 'a, 'w, 'p) lstate
     \<Rightarrow> ('x, 'o, 'a, 'w, 'p) lstate" where
  "seed_if_truthy X sd st =
     (if truthy sd then (case sd of Some n \<Rightarrow> seed_all X n st | None \<Rightarrow> st) else st)"

text \<open>
  \<^verbatim>\<open>
  try:
      running_reward = running_reward * 0.99 + ep_rs_sum * 0.01
  except:
      running_reward = ep_rs_sum
  \<close>
  Reading the unbound local raises \<open>UnboundLocalError\<close>; on bound numbers the arithmetic
  does not raise.  The bare \<open>except\<close> catches whatever the body raised.
\<close>

definition running_reward_try ::
  "real option \<Rightarrow> real \<Rightarrow> error + real" where
  "running_reward_try rr ep_rs_sum =
     (case rr of
        None \<Rightarrow> Inl UnboundLocalError
      | Some v \<Rightarrow> Inr (v * (99 / 100) + ep_rs_sum * (1 / 100)))"

definition running_reward_try_except :: "real option \<Rightarrow> real \<Rightarrow> real" where
  "running_reward_try_except rr ep_rs_sum =
     (case running_reward_try rr ep_rs_sum of
        Inl _ \<Rightarrow> ep_rs_sum
      | Inr v \<Rightarrow> v)"

text \<open>The inner loop of train mode, \<open>for step in range(max_steps)\<close>; the numeric argument
  is the number of iterations left.  It returns the state and \<open>ep_rs_sum\<close>.\<close>

fun train_steps ::
  "('x, 'o, 'a, 'w, 'p) externals \<Rightarrow> bool \<Rightarrow> nat \<Rightarrow> 'o \<Rightarrow> real
     \<Rightarrow> ('x, 'o, 'a, 'w, 'p) lstate \<Rightarrow> ('x, 'o, 'a, 'w, 'p) lstate \<times> real" where
  "train_steps X rnd 0 observation ep_rs_sum st = (st, ep_rs_sum)"
| "train_steps X rnd (Suc n) observation ep_rs_sum st =
     (let st = (if rnd then call_env_render X st else st);
          (st, action) = call_choose_action X observation st;
          (st, observation', reward, done) = call_env_step X action st;
          st = call_store_transition observation action reward st;
          ep_rs_sum = ep_rs_sum + reward
      in if done then (st, ep_rs_sum)
         else train_steps X rnd n observation' ep_rs_sum st)"

text \<open>
  \<^verbatim>\<open>
  if i_episode and i_episode % save_interval == 0:
      self.save()
  \<close>
  The modulus is evaluated only for a non-zero \<open>i_episode\<close> and raises
  \<open>ZeroDivisionError\<close> when \<open>save_interval\<close> is \<open>0\<close>.  Python's \<open>%\<close> on integers is the
  floored modulus, as \<open>mod\<close> on \<open>int\<close> is.
\<close>

definition save_if_due ::
  "('x, 'o, 'a, 'w, 'p) externals \<Rightarrow> int \<Rightarrow> int \<Rightarrow> ('x, 'o, 'a, 'w, 'p) lstate
     \<Rightarrow> ('x, 'o, 'a, 'w, 'p) lstate" where
  "save_if_due X i_episode interval st =
     (if i_episode = 0 then st
      else if interval = 0 then st\<lparr>raised := Some ZeroDivisionError\<rparr>
      else if i_episode mod interval = 0 then call_save X st
      else st)"

text \<open>One pass of the body of \<open>for i_episode in range(1, train_episodes + 1)\<close>.\<close>

definition train_episode ::
  "('x, 'o, 'a, 'w, 'p) externals \<Rightarrow> learn_args \<Rightarrow> int
     \<Rightarrow> ('x, 'o, 'a, 'w, 'p) lstate \<Rightarrow> ('x, 'o, 'a, 'w, 'p) lstate" where
  "train_episode X A i_episode st =
     (let (st, observation) = call_env_reset X st;
          (st, ep_rs_sum) = train_steps X (render A) (nat (max_steps A)) observation 0 st;
          rr = running_reward_try_except (running_reward st) ep_rs_sum;
          st = st\<lparr>running_reward := Some rr\<rparr>;
          st = emit (PrintEpisode i_episode (train_episodes A) ep_rs_sum) st;
          st = st\<lparr>reward_buffer := reward_buffer st @ [rr]\<rparr>;
          st = call_update X (gamma A) st
      in if raised st \<noteq> None then st
         else save_if_due X i_episode (save_interval A) st)"

text \<open>The outer loop: the numeric argument is the number of episodes left, \<open>i_episode\<close>
  the index of the next one.  An exception ends the loop.\<close>

fun train_loop ::
  "('x, 'o, 'a, 'w, 'p) externals \<Rightarrow> learn_args \<Rightarrow> nat \<Rightarrow> int
     \<Rightarrow> ('x, 'o, 'a, 'w, 'p) lstate \<Rightarrow> ('x, 'o, 'a, 'w, 'p) lstate" where
  "train_loop X A 0 i_episode st = st"
| "train_loop X A (Suc k) i_episode st =
     (let st = train_episode X A i_episode st
      in if raised st \<noteq> None then st
         else train_loop X A k (i_episode + 1) st)"

text \<open>Test mode: the inner loop chooses greedily and stores nothing.\<close>

fun test_steps ::
  "('x, 'o, 'a, 'w, 'p) externals \<Rightarrow> bool \<Rightarrow> nat \<Rightarrow> 'o \<Rightarrow> real
     \<Rightarrow> ('x, 'o, 'a, 'w, 'p) lstate \<Rightarrow> ('x, 'o, 'a, 'w, 'p) lstate \<times> real" where
  "test_steps X rnd 0 observation ep_rs_sum st = (st, ep_rs_sum)"
| "test_steps X rnd (Suc n) observation ep_rs_sum st =
     (let st = (if rnd then call_env_render X st else st);
          (st, action) = call_choose_action_greedy X observation st;
          (st, observation, reward, done) = call_env_step X action st;
          ep_rs_sum = ep_rs_sum + reward
      in if done then (st, ep_rs_sum)
         else test_steps X rnd n observation ep_rs_sum st)"

definition test_episode ::
  "('x, 'o, 'a, 'w, 'p) externals \<Rightarrow> learn_args \<Rightarrow> int
     \<Rightarrow> ('x, 'o, 'a, 'w, 'p) lstate \<Rightarrow> ('x, 'o, 'a, 'w, 'p) lstate" where
  "test_episode X A eps st =
     (let (st, observation) = call_env_reset X st;
          (st, ep_rs_sum) = test_steps X (render A) (nat (max_steps A)) observation 0 st;
          rr = running_reward_try_except (running_reward st) ep_rs_sum;
          st = st\<lparr>running_reward := Some rr\<rparr>
      in emit (PrintEpisode eps (test_episodes A) ep_rs_sum) st)"

fun test_loop ::
  "('x, 'o, 'a, 'w, 'p) externals \<Rightarrow> learn_args \<Rightarrow> nat \<Rightarrow> int
     \<Rightarrow> ('x, 'o, 'a, 'w, 'p) lstate \<Rightarrow> ('x, 'o, 'a, 'w, 'p) lstate" where
  "test_loop X A 0 eps st = st"
| "test_loop X A (Suc k) eps st = test_loop X A k (eps + 1) (test_episode X A eps st)"

text \<open>\<open>PG.learn(env, ...)\<close>: \<open>x\<close> is the world at the call, \<open>env\<close> included.  The result is
  the state when \<open>learn\<close> returns or raises.\<close>

definition init_lstate ::
  "('o, 'a, 'w, 'p) pg \<Rightarrow> 'x \<Rightarrow> ('x, 'o, 'a, 'w, 'p) lstate" where
  "init_lstate self x =
     \<lparr>world = x, agent = self, trace = [], running_reward = None, reward_buffer = [],
      raised = None\<rparr>"

definition learn ::
  "('x, 'o, 'a, 'w, 'p) externals \<Rightarrow> ('o, 'a, 'w, 'p) pg \<Rightarrow> 'x \<Rightarrow> learn_args
     \<Rightarrow> ('x, 'o, 'a, 'w, 'p) lstate" where
  "learn X self x A =
     (let st = seed_if_truthy X (seed A) (init_lstate self x)
      in if mode A = ''train'' then
           (let st = train_loop X A (nat (train_episodes A)) 1 st
            in if raised st \<noteq> None then st else call_plot_save_log X st)
         else if mode A = ''test'' then
           test_loop X A (nat (test_episodes A)) 0 (call_load_ckpt X st)
         else emit PrintUnknownMode st)"

section \<open>Reading a trace\<close>

text \<open>The seeding calls of a run that was given the seed \<open>sd\<close>.\<close>

definition seed_events :: "int option \<Rightarrow> event list" where
  "seed_events sd =
     (case sd of
        None \<Rightarrow> []
      | Some n \<Rightarrow> if n = 0 then [] else [NpRandomSeed n, TfRandomSetSeed n, EnvSeed n])"

fun is_seed :: "event \<Rightarrow> bool" where
  "is_seed (NpRandomSeed n) = True"
| "is_seed (TfRandomSetSeed n) = True"
| "is_seed (EnvSeed n) = True"
| "is_seed e = False"

text \<open>The calls made inside the step loops, and the calls made inside the episode loops.\<close>

fun step_event :: "event \<Rightarrow> bool" where
  "step_event EnvRender = True"
| "step_event (EnvStep d) = True"
| "step_event ChooseAction = True"
| "step_event ChooseActionGreedy = True"
| "step_event StoreTransition = True"
| "step_event e = False"

fun loop_event :: "event \<Rightarrow> bool" where
  "loop_event EnvReset = True"
| "loop_event (PrintEpisode i n s) = True"
| "loop_event Update = True"
| "loop_event Save = True"
| "loop_event e = step_event e"

text \<open>The calls the episodic pattern is made of: reset, choose, step, store, update.\<close>

fun core :: "event \<Rightarrow> bool" where
  "core EnvReset = True"
| "core ChooseAction = True"
| "core (EnvStep d) = True"
| "core StoreTransition = True"
| "core Update = True"
| "core e = False"

text \<open>The calls that read or write files: the checkpoint calls and \<open>plot_save_log\<close>.\<close>

fun is_file_io :: "event \<Rightarrow> bool" where
  "is_file_io Save = True"
| "is_file_io LoadCkpt = True"
| "is_file_io (PlotSaveLog rb) = True"
| "is_file_io e = False"

fun update_or_save :: "event \<Rightarrow> bool" where
  "update_or_save Update = True"
| "update_or_save Save = True"
| "update_or_save e = False"



text \<open>The events of one iteration of the train step loop whose step returned \<open>d\<close> as
  \<open>done\<close>, of a run of \<open>j\<close> iterations that went on and a last one, and of a whole
  train episode: its index is \<open>i\<close>, its reward sum \<open>s\<close>.\<close>

definition step_trace :: "bool \<Rightarrow> bool \<Rightarrow> event list" where
  "step_trace rnd d = (if rnd then [EnvRender] else []) @ [ChooseAction, EnvStep d, StoreTransition]"








text \<open>The episode reward sums that a run printed, in order.\<close>

fun printed_sum :: "event \<Rightarrow> real list" where
  "printed_sum (PrintEpisode i n s) = [s]"
| "printed_sum e = []"

definition episode_sums :: "event list \<Rightarrow> real list" where
  "episode_sums t = concat (map printed_sum t)"

subsection \<open>The running reward as the specification words it\<close>

text \<open>The first episode's running reward is its reward sum; every later one is
  \<open>0.99 * previous + 0.01 * ep_rs_sum\<close>.\<close>

fun spec_running_rewards_from :: "real \<Rightarrow> real list \<Rightarrow> real list" where
  "spec_running_rewards_from previous [] = []"
| "spec_running_rewards_from previous (s # ss) =
     (99 / 100 * previous + 1 / 100 * s)
       # spec_running_rewards_from (99 / 100 * previous + 1 / 100 * s) ss"

fun spec_running_rewards :: "real list \<Rightarrow> real list" where
  "spec_running_rewards [] = []"
| "spec_running_rewards (s # ss) = s # spec_running_rewards_from s ss"

definition last_option :: "real list \<Rightarrow> real option" where
  "last_option xs = (if xs = [] then None else Some (last xs))"

section \<open>TD3: the default parameter tables (\<open>td3/default.py\<close>)\<close>

text \<open>An environment as the configuration functions read it: the shapes of its observation
  and action spaces.\<close>

record space =
  shape :: "nat list"

record td3_env =
  observation_space :: space
  action_space :: space

text \<open>The networks and optimizers are framework objects; they are modelled by what they
  are constructed from: the name scope, the two spaces and the hidden layer sizes of a
  network, the learning rate of an optimizer.\<close>

datatype network =
    QNetwork string space space "nat list"
  | DeterministicPolicyNetwork string space space "nat list"

datatype optimizer_spec = Adam real

text \<open>The values stored in the parameter dictionaries, and a \<open>dict\<close> with string keys in
  insertion order.  The literals \<open>5e5\<close>, \<open>1.\<close>, \<open>0.1\<close>, \<open>0.5\<close>, \<open>3e-4\<close> are floats,
  \<open>5\<close>, \<open>150\<close> and so on integers.\<close>

datatype pyval =
    PyInt int | PyFloat real | PyNetList "network list" | PyOptList "optimizer_spec list"

type_synonym pydict = "(string \<times> pyval) list"

definition dict_get :: "pydict \<Rightarrow> string \<Rightarrow> pyval option" where
  "dict_get d k = map_of d k"

text \<open>\<open>d[k] = v\<close>: an existing key keeps its place, a new key goes last.\<close>

fun dict_set :: "pydict \<Rightarrow> string \<Rightarrow> pyval \<Rightarrow> pydict" where
  "dict_set [] k v = [(k, v)]"
| "dict_set ((k', v') # d) k v = (if k' = k then (k, v) # d else (k', v') # dict_set d k v)"

text \<open>\<open>shape[i]\<close> on a tuple, for a non-negative index: out of range raises
  \<open>IndexError\<close>.\<close>

definition tuple_item :: "nat list \<Rightarrow> nat \<Rightarrow> error + nat" where
  "tuple_item t i = (if i < length t then Inr (t ! i) else Inl IndexError)"

text \<open>
  The six configuration functions.  Each returns the pair
  \<open>(alg_params, learn_params)\<close>, or raises; the first component of the model's result is
  the seed given to \<open>set_seed(seed, env)\<close> when \<open>default_seed\<close> is true.
\<close>

definition classic_control :: "td3_env \<Rightarrow> bool \<Rightarrow> int option \<times> (error + pydict \<times> pydict)" where
  "classic_control env default_seed =
     (let set_seed_call = (if default_seed then Some 2 else None);
          state_shape = shape (observation_space env);
          action_shape = shape (action_space env)
      in (set_seed_call,
          case tuple_item state_shape 0 of Inl e \<Rightarrow> Inl e | Inr state_dim \<Rightarrow>
          case tuple_item action_shape 0 of Inl e \<Rightarrow> Inl e | Inr action_dim \<Rightarrow>
            let alg_params =
                  [(''state_dim'', PyInt (int state_dim)),
                   (''action_dim'', PyInt (int action_dim)),
                   (''replay_buffer_capacity'', PyFloat 500000),
                   (''policy_target_update_interval'', PyInt 5),
                   (''action_range'', PyFloat 1)];
                alg_params =
                  (if dict_get alg_params ''net_list'' = None then
                     let num_hidden_layer = 4;
                         hidden_dim = 64;
                         hidden_dim_list = replicate num_hidden_layer hidden_dim;
                         q_net1 = QNetwork ''TD3/Q_Net1''
                            (observation_space env) (action_space env) hidden_dim_list;
                         q_net2 = QNetwork ''TD3/Q_Net2''
                            (observation_space env) (action_space env) hidden_dim_list;
                         target_q_net1 = QNetwork ''TD3/Target_Q_Net1''
                            (observation_space env) (action_space env) hidden_dim_list;
                         target_q_net2 = QNetwork ''TD3/Target_Q_Net2''
                            (observation_space env) (action_space env) hidden_dim_list;
                         policy_net = DeterministicPolicyNetwork ''TD3/Policy''
                            (observation_space env) (action_space env) hidden_dim_list;
                         target_policy_net = DeterministicPolicyNetwork ''TD3/Target_Policy''
                            (observation_space env) (action_space env) hidden_dim_list;
                         net_list = [q_net1, q_net2, target_q_net1, target_q_net2,
                                     policy_net, target_policy_net]
                     in dict_set alg_params ''net_list'' (PyNetList net_list)
                   else alg_params);
                alg_params =
                  (if dict_get alg_params ''optimizers_list'' = None then
                     let q_lr = 3 / 10000;
                         policy_lr = 3 / 10000;
                         q_optimizer1 = Adam q_lr;
                         q_optimizer2 = Adam q_lr;
                         policy_optimizer = Adam policy_lr;
                         optimizers_list = [q_optimizer1, q_optimizer2, policy_optimizer]
                     in dict_set alg_params ''optimizers_list'' (PyOptList optimizers_list)
                   else alg_params);
                learn_params =
                  [(''max_steps'', PyInt 150),
                   (''batch_size'', PyInt 64),
                   (''explore_steps'', PyInt 500),
                   (''update_itr'', PyInt 3),
                   (''reward_scale'', PyFloat 1),
                   (''explore_noise_scale'', PyFloat 1),
                   (''eval_noise_scale'', PyFloat (1 / 2)),
                   (''train_episodes'', PyInt 1000),
                   (''test_episodes'', PyInt 10),
                   (''save_interval'', PyInt 100)]
            in Inr (alg_params, learn_params)))"

definition box2d :: "td3_env \<Rightarrow> bool \<Rightarrow> int option \<times> (error + pydict \<times> pydict)" where
  "box2d env default_seed =
     (let set_seed_call = (if default_seed then Some 2 else None);
          state_shape = shape (observation_space env);
          action_shape = shape (action_space env)
      in (set_seed_call,
          case tuple_item state_shape 0 of Inl e \<Rightarrow> Inl e | Inr state_dim \<Rightarrow>
          case tuple_item action_shape 0 of Inl e \<Rightarrow> Inl e | Inr action_dim \<Rightarrow>
            let alg_params =
                  [(''state_dim'', PyInt (int state_dim)),
                   (''action_dim'', PyInt (int action_dim)),
                   (''replay_buffer_capacity'', PyFloat 500000),
                   (''policy_target_update_interval'', PyInt 5),
                   (''action_range'', PyFloat 1)];
                alg_params =
                  (if dict_get alg_params ''net_list'' = None then
                     let num_hidden_layer = 4;
                         hidden_dim = 64;
                         hidden_dim_list = replicate num_hidden_layer hidden_dim;
                         q_net1 = QNetwork ''TD3/Q_Net1''
                            (observation_space env) (action_space env) hidden_dim_list;
                         q_net2 = QNetwork ''TD3/Q_Net2''
                            (observation_space env) (action_space env) hidden_dim_list;
                         target_q_net1 = QNetwork ''TD3/Target_Q_Net1''
                            (observation_space env) (action_space env) hidden_dim_list;
                         target_q_net2 = QNetwork ''TD3/Target_Q_Net2''
                            (observation_space env) (action_space env) hidden_dim_list;
                         policy_net = DeterministicPolicyNetwork ''TD3/Policy''
                            (observation_space env) (action_space env) hidden_dim_list;
                         target_policy_net = DeterministicPolicyNetwork ''TD3/Target_Policy''
                            (observation_space env) (action_space env) hidden_dim_list;
                         net_list = [q_net1, q_net2, target_q_net1, target_q_net2,
                                     policy_net, target_policy_net]
                     in dict_set alg_params ''net_list'' (PyNetList net_list)
                   else alg_params);
                alg_params =
                  (if dict_get alg_params ''optimizers_list'' = None then
                     let q_lr = 3 / 10000;
                         policy_lr = 3 / 10000;
                         q_optimizer1 = Adam q_lr;
                         q_optimizer2 = Adam q_lr;
                         policy_optimizer = Adam policy_lr;
                         optimizers_list = [q_optimizer1, q_optimizer2, policy_optimizer]
                     in dict_set alg_params ''optimizers_list'' (PyOptList optimizers_list)
                   else alg_params);
                learn_params =
                  [(''max_steps'', PyInt 150),
                   (''batch_size'', PyInt 64),
                   (''explore_steps'', PyInt 500),
                   (''update_itr'', PyInt 3),
                   (''reward_scale'', PyFloat 1),
                   (''explore_noise_scale'', PyFloat 1),
                   (''eval_noise_scale'', PyFloat (1 / 2)),
                   (''train_episodes'', PyInt 1000),
                   (''test_episodes'', PyInt 10),
                   (''save_interval'', PyInt 100)]
            in Inr (alg_params, learn_params)))"

definition mujoco :: "td3_env \<Rightarrow> bool \<Rightarrow> int option \<times> (error + pydict \<times> pydict)" where
  "mujoco env default_seed =
     (let set_seed_call = (if default_seed then Some 2 else None);
          state_shape = shape (observation_space env);
          action_shape = shape (action_space env)
      in (set_seed_call,
          case tuple_item state_shape 0 of Inl e \<Rightarrow> Inl e | Inr state_dim \<Rightarrow>
          case tuple_item action_shape 0 of Inl e \<Rightarrow> Inl e | Inr action_dim \<Rightarrow>
            let alg_params =
                  [(''state_dim'', PyInt (int state_dim)),
                   (''action_dim'', PyInt (int action_dim)),
                   (''replay_buffer_capacity'', PyFloat 500000),
                   (''policy_target_update_interval'', PyInt 5),
                   (''action_range'', PyFloat 1)];
                alg_params =
                  (if dict_get alg_params ''net_list'' = None then
                     let num_hidden_layer = 4;
                         hidden_dim = 64;
                         hidden_dim_list = replicate num_hidden_layer hidden_dim;
                         q_net1 = QNetwork ''TD3/Q_Net1''
                            (observation_space env) (action_space env) hidden_dim_list;
                         q_net2 = QNetwork ''TD3/Q_Net2''
                            (observation_space env) (action_space env) hidden_dim_list;
                         target_q_net1 = QNetwork ''TD3/Target_Q_Net1''
                            (observation_space env) (action_space env) hidden_dim_list;
                         target_q_net2 = QNetwork ''TD3/Target_Q_Net2''
                            (observation_space env) (action_space env) hidden_dim_list;
                         policy_net = DeterministicPolicyNetwork ''TD3/Policy''
                            (observation_space env) (action_space env) hidden_dim_list;
                         target_policy_net = DeterministicPolicyNetwork ''TD3/Target_Policy''
                            (observation_space env) (action_space env) hidden_dim_list;
                         net_list = [q_net1, q_net2, target_q_net1, target_q_net2,
                                     policy_net, target_policy_net]
                     in dict_set alg_params ''net_list'' (PyNetList net_list)
                   else alg_params);
                alg_params =
                  (if dict_get alg_params ''optimizers_list'' = None then
                     let q_lr = 3 / 10000;
                         policy_lr = 3 / 10000;
                         q_optimizer1 = Adam q_lr;
                         q_optimizer2 = Adam q_lr;
                         policy_optimizer = Adam policy_lr;
                         optimizers_list = [q_optimizer1, q_optimizer2, policy_optimizer]
                     in dict_set alg_params ''optimizers_list'' (PyOptList optimizers_list)
                   else alg_params);
                learn_params =
                  [(''max_steps'', PyInt 150),
                   (''batch_size'', PyInt 64),
                   (''explore_steps'', PyInt 500),
                   (''update_itr'', PyInt 3),
                   (''reward_scale'', PyFloat 1),
                   (''explore_noise_scale'', PyFloat 1),
                   (''eval_noise_scale'', PyFloat (1 / 2)),
                   (''train_episodes'', PyInt 1000),
                   (''test_episodes'', PyInt 10),
                   (''save_interval'', PyInt 100)]
            in Inr (alg_params, learn_params)))"

definition robotics :: "td3_env \<Rightarrow> bool \<Rightarrow> int option \<times> (error + pydict \<times> pydict)" where
  "robotics env default_seed =
     (let set_seed_call = (if default_seed then Some 2 else None);
          state_shape = shape (observation_space env);
          action_shape = shape (action_space env)
      in (set_seed_call,
          case tuple_item state_shape 0 of Inl e \<Rightarrow> Inl e | Inr state_dim \<Rightarrow>
          case tuple_item action_shape 0 of Inl e \<Rightarrow> Inl e | Inr action_dim \<Rightarrow>
            let alg_params =
                  [(''state_dim'', PyInt (int state_dim)),
                   (''action_dim'', PyInt (int action_dim)),
                   (''replay_buffer_capacity'', PyFloat 500000),
                   (''policy_target_update_interval'', PyInt 5),
                   (''action_range'', PyFloat 1)];
                alg_params =
                  (if dict_get alg_params ''net_list'' = None then
                     let num_hidden_layer = 4;
                         hidden_dim = 64;
                         hidden_dim_list = replicate num_hidden_layer hidden_dim;
                         q_net1 = QNetwork ''TD3/Q_Net1''
                            (observation_space env) (action_space env) hidden_dim_list;
                         q_net2 = QNetwork ''TD3/Q_Net2''
                            (observation_space env) (action_space env) hidden_dim_list;
                         target_q_net1 = QNetwork ''TD3/Target_Q_Net1''
                            (observation_space env) (action_space env) hidden_dim_list;
                         target_q_net2 = QNetwork ''TD3/Target_Q_Net2''
                            (observation_space env) (action_space env) hidden_dim_list;
                         policy_net = DeterministicPolicyNetwork ''TD3/Policy''
                            (observation_space env) (action_space env) hidden_dim_list;
                         target_policy_net = DeterministicPolicyNetwork ''TD3/Target_Policy''
                            (observation_space env) (action_space env) hidden_dim_list;
                         net_list = [q_net1, q_net2, target_q_net1, target_q_net2,
                                     policy_net, target_policy_net]
                     in dict_set alg_params ''net_list'' (PyNetList net_list)
                   else alg_params);
                alg_params =
                  (if dict_get alg_params ''optimizers_list'' = None then
                     let q_lr = 3 / 10000;
                         policy_lr = 3 / 10000;
                         q_optimizer1 = Adam q_lr;
                         q_optimizer2 = Adam q_lr;
                         policy_optimizer = Adam policy_lr;
                         optimizers_list = [q_optimizer1, q_optimizer2, policy_optimizer]
                     in dict_set alg_params ''optimizers_list'' (PyOptList optimizers_list)
                   else alg_params);
                learn_params =
                  [(''max_steps'', PyInt 150),
                   (''batch_size'', PyInt 64),
                   (''explore_steps'', PyInt 500),
                   (''update_itr'', PyInt 3),
                   (''reward_scale'', PyFloat 1),
                   (''explore_noise_scale'', PyFloat 1),
                   (''eval_noise_scale'', PyFloat (1 / 2)),
                   (''train_episodes'', PyInt 1000),
                   (''test_episodes'', PyInt 10),
                   (''save_interval'', PyInt 100)]
            in Inr (alg_params, learn_params)))"

definition dm_control :: "td3_env \<Rightarrow> bool \<Rightarrow> int option \<times> (error + pydict \<times> pydict)" where
  "dm_control env default_seed =
     (let set_seed_call = (if default_seed then Some 2 else None);
          state_shape = shape (observation_space env);
          action_shape = shape (action_space env)
      in (set_seed_call,
          case tuple_item state_shape 0 of Inl e \<Rightarrow> Inl e | Inr state_dim \<Rightarrow>
          case tuple_item action_shape 0 of Inl e \<Rightarrow> Inl e | Inr action_dim \<Rightarrow>
            let alg_params =
                  [(''state_dim'', PyInt (int state_dim)),
                   (''action_dim'', PyInt (int action_dim)),
                   (''replay_buffer_capacity'', PyFloat 500000),
                   (''policy_target_update_interval'', PyInt 5),
                   (''action_range'', PyFloat 1)];
                alg_params =
                  (if dict_get alg_params ''net_list'' = None then
                     let num_hidden_layer = 4;
                         hidden_dim = 64;
                         hidden_dim_list = replicate num_hidden_layer hidden_dim;
                         q_net1 = QNetwork ''TD3/Q_Net1''
                            (observation_space env) (action_space env) hidden_dim_list;
                         q_net2 = QNetwork ''TD3/Q_Net2''
                            (observation_space env) (action_space env) hidden_dim_list;
                         target_q_net1 = QNetwork ''TD3/Target_Q_Net1''
                            (observation_space env) (action_space env) hidden_dim_list;
                         target_q_net2 = QNetwork ''TD3/Target_Q_Net2''
                            (observation_space env) (action_space env) hidden_dim_list;
                         policy_net = DeterministicPolicyNetwork ''TD3/Policy''
                            (observation_space env) (action_space env) hidden_dim_list;
                         target_policy_net = DeterministicPolicyNetwork ''TD3/Target_Policy''
                            (observation_space env) (action_space env) hidden_dim_list;
                         net_list = [q_net1, q_net2, target_q_net1, target_q_net2,
                                     policy_net, target_policy_net]
                     in dict_set alg_params ''net_list'' (PyNetList net_list)
                   else alg_params);
                alg_params =
                  (if dict_get alg_params ''optimizers_list'' = None then
                     let q_lr = 3 / 10000;
                         policy_lr = 3 / 10000;
                         q_optimizer1 = Adam q_lr;
                         q_optimizer2 = Adam q_lr;
                         policy_optimizer = Adam policy_lr;
                         optimizers_list = [q_optimizer1, q_optimizer2, policy_optimizer]
                     in dict_set alg_params ''optimizers_list'' (PyOptList optimizers_list)
                   else alg_params);
                learn_params =
                  [(''max_steps'', PyInt 150),
                   (''batch_size'', PyInt 64),
                   (''explore_steps'', PyInt 500),
                   (''update_itr'', PyInt 3),
                   (''reward_scale'', PyFloat 1),
                   (''explore_noise_scale'', PyFloat 1),
                   (''eval_noise_scale'', PyFloat (1 / 2)),
                   (''train_episodes'', PyInt 1000),
                   (''test_episodes'', PyInt 10),
                   (''save_interval'', PyInt 100)]
            in Inr (alg_params, learn_params)))"

definition rlbench :: "td3_env \<Rightarrow> bool \<Rightarrow> int option \<times> (error + pydict \<times> pydict)" where
  "rlbench env default_seed =
     (let set_seed_call = (if default_seed then Some 2 else None);
          state_shape = shape (observation_space env);
          action_shape = shape (action_space env)
      in (set_seed_call,
          case tuple_item state_shape 0 of Inl e \<Rightarrow> Inl e | Inr state_dim \<Rightarrow>
          case tuple_item action_shape 0 of Inl e \<Rightarrow> Inl e | Inr action_dim \<Rightarrow>
            let alg_params =
                  [(''state_dim'', PyInt (int state_dim)),
                   (''action_dim'', PyInt (int action_dim)),
                   (''replay_buffer_capacity'', PyFloat 500000),
                   (''policy_target_update_interval'', PyInt 5),
                   (''action_range'', PyFloat (1 / 10))];
                alg_params =
                  (if dict_get alg_params ''net_list'' = None then
                     let num_hidden_layer = 4;
                         hidden_dim = 64;
                         hidden_dim_list = replicate num_hidden_layer hidden_dim;
                         q_net1 = QNetwork ''TD3/Q_Net1''
                            (observation_space env) (action_space env) hidden_dim_list;
                         q_net2 = QNetwork ''TD3/Q_Net2''
                            (observation_space env) (action_space env) hidden_dim_list;
                         target_q_net1 = QNetwork ''TD3/Target_Q_Net1''
                            (observation_space env) (action_space env) hidden_dim_list;
                         target_q_net2 = QNetwork ''TD3/Target_Q_Net2''
                            (observation_space env) (action_space env) hidden_dim_list;
                         policy_net = DeterministicPolicyNetwork ''TD3/Policy''
                            (observation_space env) (action_space env) hidden_dim_list;
                         target_policy_net = DeterministicPolicyNetwork ''TD3/Target_Policy''
                            (observation_space env) (action_space env) hidden_dim_list;
                         net_list = [q_net1, q_net2, target_q_net1, target_q_net2,
                                     policy_net, target_policy_net]
                     in dict_set alg_params ''net_list'' (PyNetList net_list)
                   else alg_params);
                alg_params =
                  (if dict_get alg_params ''optimizers_list'' = None then
                     let q_lr = 3 / 10000;
                         policy_lr = 3 / 10000;
                         q_optimizer1 = Adam q_lr;
                         q_optimizer2 = Adam q_lr;
                         policy_optimizer = Adam policy_lr;
                         optimizers_list = [q_optimizer1, q_optimizer2, policy_optimizer]
                     in dict_set alg_params ''optimizers_list'' (PyOptList optimizers_list)
                   else alg_params);
                learn_params =
                  [(''max_steps'', PyInt 150),
                   (''batch_size'', PyInt 64),
                   (''explore_steps'', PyInt 500),
                   (''update_itr'', PyInt 3),
                   (''reward_scale'', PyFloat 1),
                   (''explore_noise_scale'', PyFloat 1),
                   (''eval_noise_scale'', PyFloat (1 / 2)),
                   (''train_episodes'', PyInt 1000),
                   (''test_episodes'', PyInt 10),
                   (''save_interval'', PyInt 100)]
            in Inr (alg_params, learn_params)))"

section \<open>DQN: the Q-networks (\<open>dqn/default.py\<close>)\<close>








section \<open>A small environment to run the model on\<close>

text \<open>
  A concrete instance of the external parameters, for evaluating the model: the world is a
  step counter, \<open>reset\<close> sets it to \<open>0\<close>, a step earns the action as its reward and the
  second step of an episode reports \<open>done\<close>; the policy adds the weights to the
  observation, and a gradient step increments the weights and the optimizer state.
\<close>

definition toy :: "(nat, nat, nat, nat, nat) externals" where
  "toy =
     \<lparr>env_reset = (\<lambda>x. (0, 0)),
      env_step = (\<lambda>a x. (Suc x, Suc x, real a, 2 \<le> Suc x)),
      env_render = (\<lambda>x. x),
      env_seed = (\<lambda>n x. x),
      np_random_seed = (\<lambda>n x. x),
      tf_random_set_seed = (\<lambda>n x. x),
      policy_sample = (\<lambda>w s x. (x, w + s)),
      policy_greedy = (\<lambda>w s. w + s),
      apply_gradients = (\<lambda>p w s a d. (Suc p, Suc w)),
      save_model = (\<lambda>w x. x),
      load_model = (\<lambda>x w. w),
      plot_save_log = (\<lambda>rb x. x)\<rparr>"

definition toy_pg :: "(nat, nat, nat, nat) pg" where
  "toy_pg = \<lparr>model = 0, optimizer = 0, buffer = []\<rparr>"

text \<open>Arguments for a short run: two train episodes or one test episode of at most three
  steps, a save every second episode.\<close>

definition toy_args :: learn_args where
  "toy_args = default_args\<lparr>train_episodes := 2, test_episodes := 1, max_steps := 3, save_interval := 2\<rparr>"

text \<open>An environment with a three-dimensional observation vector and a one-dimensional
  action vector, as \<open>Pendulum-v0\<close> has.\<close>

definition pendulum :: td3_env where
  "pendulum = \<lparr>observation_space = \<lparr>shape = [3]\<rparr>, action_space = \<lparr>shape = [1]\<rparr>\<rparr>"



section \<open>Properties of the discounting and normalising routine\<close>

















section \<open>Properties of the \<open>PG\<close> object\<close>

lemma update_nonempty:
  "buffer self \<noteq> [] \<Longrightarrow>
   \<exists>self' d. update X self g = Inr (self', d) \<and> buffer self' = []
      \<and> d = discount_and_norm_rewards (map (\<lambda>t. snd (snd t)) (buffer self)) g"
  by (simp add: update_def Let_def split: prod.splits)

lemma update_empty: "buffer self = [] \<Longrightarrow> update X self g = Inl ValueError"
  by (simp add: update_def)

lemma update_Inr_buffer: "update X self g = Inr (self', d) \<Longrightarrow> buffer self' = []"
  by (auto simp: update_def Let_def split: if_splits prod.splits)

text \<open>
  Claim C2.  For a \<open>PG\<close> object with a non-empty transition buffer, \<open>update\<close> returns, and
  whenever it returns the buffer of the object is empty: the transitions of the episode are
  discarded by the gradient update.  Each call of \<open>store_transition\<close> appends exactly one
  \<open>(state, action, reward)\<close> entry to the buffer and changes nothing else.
\<close>

theorem update_discards_transitions:
  assumes "buffer self \<noteq> []"
  shows "(\<exists>self' d. update X self g = Inr (self', d) \<and> buffer self' = [])
       \<and> (\<forall>self' d. update X self g = Inr (self', d) \<longrightarrow> buffer self' = [])
       \<and> buffer (store_transition q s a r) = buffer q @ [(s, a, r)]
       \<and> length (buffer (store_transition q s a r)) = Suc (length (buffer q))
       \<and> model (store_transition q s a r) = model q
       \<and> optimizer (store_transition q s a r) = optimizer q"
  using update_nonempty [OF assms, of X g] update_Inr_buffer [of X self g]
  by (auto simp: store_transition_def)

theorem update_discards_transitions_witness:
  "buffer (store_transition toy_pg 0 0 1) = [(0, 0, 1)]
   \<and> (\<exists>self' d. update toy (store_transition toy_pg 0 0 1) (95 / 100) = Inr (self', d)
         \<and> buffer self' = [])"
  using update_discards_transitions [of "store_transition toy_pg 0 0 1" toy "95 / 100" toy_pg 0 0 1]
  by (simp add: store_transition_def toy_pg_def)

section \<open>Properties of the TD3 parameter tables\<close>

text \<open>
  Claim C5.  For an environment whose observation and action shapes are one-dimensional,
  \<open>classic_control\<close>, \<open>box2d\<close>, \<open>mujoco\<close>, \<open>robotics\<close> and \<open>dm_control\<close> return equal
  results: \<open>state_dim\<close> and \<open>action_dim\<close> from the environment,
  \<open>replay_buffer_capacity = 5e5\<close>, \<open>policy_target_update_interval = 5\<close>,
  \<open>action_range = 1.0\<close>, and the same \<open>learn_params\<close>.  \<open>rlbench\<close> returns the same tables
  but for \<open>action_range\<close>, which is \<open>0.1\<close>.
\<close>

theorem td3_default_tables_agree:
  assumes "length (shape (observation_space env)) = 1"
    and "length (shape (action_space env)) = 1"
  shows "box2d env ds = classic_control env ds
       \<and> mujoco env ds = classic_control env ds
       \<and> robotics env ds = classic_control env ds
       \<and> dm_control env ds = classic_control env ds
       \<and> fst (rlbench env ds) = fst (classic_control env ds)
       \<and> (\<exists>alg_params learn_params.
            snd (classic_control env ds) = Inr (alg_params, learn_params)
          \<and> dict_get alg_params ''state_dim'' = Some (PyInt (int (shape (observation_space env) ! 0)))
          \<and> dict_get alg_params ''action_dim'' = Some (PyInt (int (shape (action_space env) ! 0)))
          \<and> dict_get alg_params ''replay_buffer_capacity'' = Some (PyFloat 500000)
          \<and> dict_get alg_params ''policy_target_update_interval'' = Some (PyInt 5)
          \<and> dict_get alg_params ''action_range'' = Some (PyFloat 1)
          \<and> snd (rlbench env ds) =
               Inr (dict_set alg_params ''action_range'' (PyFloat (1 / 10)), learn_params))"
proof -
  obtain n where n: "shape (observation_space env) = [n]"
    using assms(1) by (cases "shape (observation_space env)") auto
  obtain m where m: "shape (action_space env) = [m]"
    using assms(2) by (cases "shape (action_space env)") auto
  show ?thesis
    by (simp add: box2d_def classic_control_def mujoco_def robotics_def dm_control_def
        rlbench_def n m tuple_item_def dict_get_def Let_def)
qed

theorem td3_default_tables_agree_witness:
  "length (shape (observation_space pendulum)) = 1
   \<and> length (shape (action_space pendulum)) = 1
   \<and> box2d pendulum True = classic_control pendulum True
   \<and> dm_control pendulum True = classic_control pendulum True
   \<and> fst (rlbench pendulum True) = Some 2"
  using td3_default_tables_agree [of pendulum True]
  by (simp add: pendulum_def classic_control_def)

section \<open>Properties of the dueling Q-networks\<close>





section \<open>Properties of \<open>PG.learn\<close>\<close>

subsection \<open>What each call does to the state\<close>

lemmas call_defs =
  emit_def call_env_reset_def call_env_render_def call_env_step_def call_choose_action_def
  call_choose_action_greedy_def call_store_transition_def call_update_def call_save_def
  call_load_ckpt_def call_plot_save_log_def

lemma call_env_reset_fields:
  "call_env_reset X st = (st', obs) \<Longrightarrow>
   trace st' = trace st @ [EnvReset] \<and> raised st' = raised st \<and> agent st' = agent st
   \<and> running_reward st' = running_reward st \<and> reward_buffer st' = reward_buffer st"
  by (auto simp: call_defs split: prod.splits)

lemma call_update_fields:
  "trace (call_update X g st) = trace st @ [Update]"
  "running_reward (call_update X g st) = running_reward st"
  "reward_buffer (call_update X g st) = reward_buffer st"
  "world (call_update X g st) = world st"
  "raised (call_update X g st) = (if buffer (agent st) = [] then Some ValueError else raised st)"
  by (auto simp: call_defs update_def Let_def split: sum.splits prod.splits)

lemma call_update_buffer:
  "buffer (agent st) \<noteq> [] \<Longrightarrow> buffer (agent (call_update X g st)) = []"
  by (auto simp: call_defs update_def Let_def split: sum.splits prod.splits)

lemma save_if_due_fields:
  "running_reward (save_if_due X i n st) = running_reward st"
  "reward_buffer (save_if_due X i n st) = reward_buffer st"
  "agent (save_if_due X i n st) = agent st"
  "raised (save_if_due X i n st) =
     (if i \<noteq> 0 \<and> n = 0 then Some ZeroDivisionError else raised st)"
  "trace (save_if_due X i n st) =
     trace st @ (if i \<noteq> 0 \<and> n \<noteq> 0 \<and> i mod n = 0 then [Save] else [])"
  by (auto simp: save_if_due_def call_defs)

lemma seed_if_truthy_fields:
  "trace (seed_if_truthy X sd st) = trace st @ seed_events sd"
  "raised (seed_if_truthy X sd st) = raised st"
  "agent (seed_if_truthy X sd st) = agent st"
  "running_reward (seed_if_truthy X sd st) = running_reward st"
  "reward_buffer (seed_if_truthy X sd st) = reward_buffer st"
  by (auto simp: seed_if_truthy_def seed_all_def seed_events_def emit_def Let_def
      split: option.splits)

lemma seed_if_truthy_falsy:
  "\<not> truthy sd \<Longrightarrow> seed_if_truthy X sd st = st"
  by (simp add: seed_if_truthy_def)

subsection \<open>The step loops\<close>

lemma train_steps_frame:
  "train_steps X rnd n obs ep st = (st', ep') \<Longrightarrow>
   raised st' = raised st \<and> running_reward st' = running_reward st
   \<and> reward_buffer st' = reward_buffer st
   \<and> (\<exists>evs. trace st' = trace st @ evs \<and> (\<forall>e\<in>set evs. step_event e))"
proof (induction n arbitrary: obs ep st)
  case 0
  then show ?case by simp
next
  case (Suc n)
  then show ?case
    by (fastforce simp: Let_def call_defs split: prod.splits if_splits)
qed

lemma test_steps_frame:
  "test_steps X rnd n obs ep st = (st', ep') \<Longrightarrow>
   raised st' = raised st \<and> running_reward st' = running_reward st
   \<and> reward_buffer st' = reward_buffer st \<and> agent st' = agent st
   \<and> (\<exists>evs. trace st' = trace st @ evs \<and> (\<forall>e\<in>set evs. step_event e))"
proof (induction n arbitrary: obs ep st)
  case 0
  then show ?case by simp
next
  case (Suc n)
  then show ?case
    by (fastforce simp: Let_def call_defs split: prod.splits if_splits)
qed

text \<open>One iteration of the train step loop.\<close>

lemma train_steps_Suc:
  assumes "call_choose_action X obs (if rnd then call_env_render X st else st) = (st1, a)"
    and "call_env_step X a st1 = (st2, obs', rew, dn)"
  shows "train_steps X rnd (Suc n) obs ep st =
           (if dn then (call_store_transition obs a rew st2, ep + rew)
            else train_steps X rnd n obs' (ep + rew) (call_store_transition obs a rew st2))"
    and "trace (call_store_transition obs a rew st2) = trace st @ step_trace rnd dn"
    and "buffer (agent (call_store_transition obs a rew st2)) \<noteq> []"
    and "raised (call_store_transition obs a rew st2) = raised st"
  using assms
  by (auto simp: Let_def call_defs step_trace_def store_transition_def split: prod.splits if_splits)

lemma train_steps_buffer:
  "train_steps X rnd n obs ep st = (st', ep') \<Longrightarrow> buffer (agent st) \<noteq> [] \<Longrightarrow>
   buffer (agent st') \<noteq> []"
proof (induction n arbitrary: obs ep st)
  case 0
  then show ?case by simp
next
  case (Suc n)
  obtain st1 a where c: "call_choose_action X obs (if rnd then call_env_render X st else st) = (st1, a)"
    by force
  obtain st2 obs' rew dn where s: "call_env_step X a st1 = (st2, obs', rew, dn)"
    by (metis prod_cases4)
  note it = train_steps_Suc [OF c s]
  have eq: "(if dn then (call_store_transition obs a rew st2, ep + rew)
             else train_steps X rnd n obs' (ep + rew) (call_store_transition obs a rew st2))
            = (st', ep')"
    using Suc.prems(1) unfolding it(1) .
  show ?case
  proof (cases dn)
    case True
    then show ?thesis using eq it(3) by (auto split: if_splits)
  next
    case False
    then show ?thesis using eq it(3) Suc.IH by (auto split: if_splits)
  qed
qed


subsection \<open>The running reward\<close>

lemma running_reward_try_except_simps:
  "running_reward_try_except None s = s"
  "running_reward_try_except (Some v) s = 99 / 100 * v + 1 / 100 * s"
  by (simp_all add: running_reward_try_except_def running_reward_try_def)

lemma spec_running_rewards_from_snoc:
  "spec_running_rewards_from v (ss @ [s]) =
     spec_running_rewards_from v ss
       @ [99 / 100 * last (v # spec_running_rewards_from v ss) + 1 / 100 * s]"
  by (induction ss arbitrary: v) auto

lemma spec_running_rewards_snoc:
  "spec_running_rewards (ss @ [s]) =
     spec_running_rewards ss
       @ [running_reward_try_except (last_option (spec_running_rewards ss)) s]"
  by (cases ss)
    (auto simp: last_option_def running_reward_try_except_simps spec_running_rewards_from_snoc)

lemma episode_sums_append: "episode_sums (a @ b) = episode_sums a @ episode_sums b"
  by (simp add: episode_sums_def)

lemma printed_sum_step_event: "step_event e \<Longrightarrow> printed_sum e = []"
  by (cases e) auto

lemma episode_sums_step_events: "\<forall>e\<in>set evs. step_event e \<Longrightarrow> episode_sums evs = []"
  by (induction evs) (auto simp: episode_sums_def printed_sum_step_event)

lemma step_event_loop_event: "step_event e \<Longrightarrow> loop_event e"
  by (cases e) auto

subsection \<open>Episodes\<close>

lemma train_episode_unfold:
  assumes "call_env_reset X st = (st1, obs)"
    and "train_steps X (render A) (nat (max_steps A)) obs 0 st1 = (st2, ep)"
  shows "train_episode X A i st =
     (let rr = running_reward_try_except (running_reward st2) ep;
          st4 = call_update X (gamma A)
                  (st2\<lparr>running_reward := Some rr,
                       trace := trace st2 @ [PrintEpisode i (train_episodes A) ep],
                       reward_buffer := reward_buffer st2 @ [rr]\<rparr>)
      in if raised st4 \<noteq> None then st4 else save_if_due X i (save_interval A) st4)"
  using assms by (simp add: train_episode_def Let_def emit_def)

lemma train_episode_general:
  "\<exists>evs s. trace (train_episode X A i st) = trace st @ evs
      \<and> (\<forall>e\<in>set evs. loop_event e) \<and> episode_sums evs = [s]
      \<and> running_reward (train_episode X A i st) =
          Some (running_reward_try_except (running_reward st) s)
      \<and> reward_buffer (train_episode X A i st) =
          reward_buffer st @ [running_reward_try_except (running_reward st) s]
      \<and> (raised (train_episode X A i st) = raised st
          \<or> raised (train_episode X A i st) = Some ValueError
          \<or> raised (train_episode X A i st) = Some ZeroDivisionError)"
proof -
  obtain st1 obs where r: "call_env_reset X st = (st1, obs)" by force
  obtain st2 ep where t: "train_steps X (render A) (nat (max_steps A)) obs 0 st1 = (st2, ep)"
    by force
  note r' = call_env_reset_fields [OF r]
  from train_steps_frame [OF t] obtain evs where
    f: "raised st2 = raised st1" "running_reward st2 = running_reward st1"
       "reward_buffer st2 = reward_buffer st1" "trace st2 = trace st1 @ evs"
       "\<forall>e\<in>set evs. step_event e" by blast
  have l: "\<forall>e\<in>set evs. loop_event e" using f(5) step_event_loop_event by blast
  have z: "episode_sums evs = []" using f(5) by (rule episode_sums_step_events)
  show ?thesis
    unfolding train_episode_unfold [OF r t] Let_def
    using r' f(1-4) l z
    by (auto simp: call_update_fields save_if_due_fields episode_sums_append)
       (auto simp: episode_sums_def)
qed

lemma test_episode_general:
  "\<exists>evs s. trace (test_episode X A i st) = trace st @ evs
      \<and> (\<forall>e\<in>set evs. loop_event e \<and> \<not> is_file_io e) \<and> episode_sums evs = [s]
      \<and> running_reward (test_episode X A i st) =
          Some (running_reward_try_except (running_reward st) s)
      \<and> reward_buffer (test_episode X A i st) = reward_buffer st
      \<and> raised (test_episode X A i st) = raised st
      \<and> agent (test_episode X A i st) = agent st"
proof -
  obtain st1 obs where r: "call_env_reset X st = (st1, obs)" by force
  obtain st2 ep where t: "test_steps X (render A) (nat (max_steps A)) obs 0 st1 = (st2, ep)"
    by force
  note r' = call_env_reset_fields [OF r]
  from test_steps_frame [OF t] obtain evs where
    f: "raised st2 = raised st1" "running_reward st2 = running_reward st1"
       "reward_buffer st2 = reward_buffer st1" "agent st2 = agent st1"
       "trace st2 = trace st1 @ evs" "\<forall>e\<in>set evs. step_event e" by blast
  have l: "\<forall>e\<in>set evs. loop_event e \<and> \<not> is_file_io e"
  proof
    fix e assume "e \<in> set evs"
    then have "step_event e" using f(6) by blast
    then show "loop_event e \<and> \<not> is_file_io e" by (cases e) auto
  qed
  have z: "episode_sums evs = []" using f(6) by (rule episode_sums_step_events)
  show ?thesis
    using r' f(1-5) l z
    by (auto simp: test_episode_def r t Let_def emit_def episode_sums_append)
       (auto simp: episode_sums_def)
qed

lemma last_option_snoc: "last_option (xs @ [x]) = Some x"
  by (simp add: last_option_def)

lemma train_episode_invariant:
  assumes "running_reward st = last_option (spec_running_rewards (episode_sums (trace st)))"
    and "reward_buffer st = spec_running_rewards (episode_sums (trace st))"
  shows "running_reward (train_episode X A i st) =
           last_option (spec_running_rewards (episode_sums (trace (train_episode X A i st))))
       \<and> reward_buffer (train_episode X A i st) =
           spec_running_rewards (episode_sums (trace (train_episode X A i st)))"
proof -
  obtain evs s where
    g: "trace (train_episode X A i st) = trace st @ evs" "episode_sums evs = [s]"
       "running_reward (train_episode X A i st) =
          Some (running_reward_try_except (running_reward st) s)"
       "reward_buffer (train_episode X A i st) =
          reward_buffer st @ [running_reward_try_except (running_reward st) s]"
    using train_episode_general [of X A i st] by blast
  show ?thesis
    using assms
    by (simp add: g episode_sums_append spec_running_rewards_snoc last_option_snoc)
qed

lemma test_episode_invariant:
  assumes "running_reward st = last_option (spec_running_rewards (episode_sums (trace st)))"
  shows "running_reward (test_episode X A i st) =
           last_option (spec_running_rewards (episode_sums (trace (test_episode X A i st))))"
proof -
  obtain evs s where
    g: "trace (test_episode X A i st) = trace st @ evs" "episode_sums evs = [s]"
       "running_reward (test_episode X A i st) =
          Some (running_reward_try_except (running_reward st) s)"
    using test_episode_general [of X A i st] by blast
  show ?thesis
    using assms
    by (simp add: g episode_sums_append spec_running_rewards_snoc last_option_snoc)
qed

subsection \<open>The episode loops\<close>

lemma train_loop_invariant:
  "running_reward st = last_option (spec_running_rewards (episode_sums (trace st))) \<Longrightarrow>
   reward_buffer st = spec_running_rewards (episode_sums (trace st)) \<Longrightarrow>
   running_reward (train_loop X A k i st) =
     last_option (spec_running_rewards (episode_sums (trace (train_loop X A k i st))))
   \<and> reward_buffer (train_loop X A k i st) =
     spec_running_rewards (episode_sums (trace (train_loop X A k i st)))"
proof (induction k arbitrary: i st)
  case 0
  then show ?case by simp
next
  case (Suc k)
  note ep = train_episode_invariant [OF Suc.prems, of X A i]
  show ?case
  proof (cases "raised (train_episode X A i st) = None")
    case True
    then show ?thesis using Suc.IH [of "train_episode X A i st" "i + 1"] ep
      by (simp add: Let_def)
  next
    case False
    then show ?thesis using ep by (simp add: Let_def)
  qed
qed


lemma train_loop_raised:
  "raised (train_loop X A k i st) = raised st
   \<or> raised (train_loop X A k i st) = Some ValueError
   \<or> raised (train_loop X A k i st) = Some ZeroDivisionError"
proof (induction k arbitrary: i st)
  case 0
  then show ?case by simp
next
  case (Suc k)
  show ?case
    using train_episode_general [of X A i st] Suc.IH [of "i + 1" "train_episode X A i st"]
    by (cases "raised (train_episode X A i st) = None") (auto simp: Let_def)
qed

lemma test_loop_invariant:
  "running_reward st = last_option (spec_running_rewards (episode_sums (trace st))) \<Longrightarrow>
   running_reward (test_loop X A k i st) =
     last_option (spec_running_rewards (episode_sums (trace (test_loop X A k i st))))"
proof (induction k arbitrary: i st)
  case 0
  then show ?case by simp
next
  case (Suc k)
  show ?case
    using Suc.IH [OF test_episode_invariant [OF Suc.prems, of X A i], of "i + 1"] by simp
qed

lemma test_loop_frame:
  "raised (test_loop X A k i st) = raised st
   \<and> agent (test_loop X A k i st) = agent st
   \<and> reward_buffer (test_loop X A k i st) = reward_buffer st
   \<and> (\<exists>evs. trace (test_loop X A k i st) = trace st @ evs
         \<and> (\<forall>e\<in>set evs. loop_event e \<and> \<not> is_file_io e))"
proof (induction k arbitrary: i st)
  case 0
  then show ?case by simp
next
  case (Suc k)
  obtain evs where e: "trace (test_episode X A i st) = trace st @ evs"
    "\<forall>e\<in>set evs. loop_event e \<and> \<not> is_file_io e"
    "raised (test_episode X A i st) = raised st" "agent (test_episode X A i st) = agent st"
    "reward_buffer (test_episode X A i st) = reward_buffer st"
    using test_episode_general [of X A i st] by blast
  obtain evs' where e': "trace (test_loop X A k (i + 1) (test_episode X A i st))
        = trace (test_episode X A i st) @ evs'" "\<forall>e\<in>set evs'. loop_event e \<and> \<not> is_file_io e"
    using Suc.IH [of "i + 1" "test_episode X A i st"] by blast
  have "trace (test_loop X A (Suc k) i st) = trace st @ (evs @ evs')"
    "\<forall>e\<in>set (evs @ evs'). loop_event e \<and> \<not> is_file_io e"
    using e e' by auto
  then show ?case using Suc.IH [of "i + 1" "test_episode X A i st"] e(3-5) by auto
qed

subsection \<open>The trace of a train run whose arguments let it complete\<close>



subsection \<open>Projections of a train trace\<close>







lemma filter_seed_events: "filter core (seed_events sd) = []"
  "filter update_or_save (seed_events sd) = []"
  "filter is_file_io (seed_events sd) = []"
  "filter is_seed (seed_events sd) = seed_events sd"
  "episode_sums (seed_events sd) = []"
  by (auto simp: seed_events_def episode_sums_def split: option.splits)




subsection \<open>The whole run\<close>

lemma init_fields:
  "trace (init_lstate self x) = []" "raised (init_lstate self x) = None"
  "agent (init_lstate self x) = self" "running_reward (init_lstate self x) = None"
  "reward_buffer (init_lstate self x) = []" "world (init_lstate self x) = x"
  by (simp_all add: init_lstate_def)

lemma learn_train:
  assumes "mode A = ''train''"
  shows "learn X self x A =
     (let st = train_loop X A (nat (train_episodes A)) 1
                 (seed_if_truthy X (seed A) (init_lstate self x))
      in if raised st \<noteq> None then st else call_plot_save_log X st)"
  using assms by (simp add: learn_def Let_def)

lemma learn_test:
  assumes "mode A = ''test''"
  shows "learn X self x A =
     test_loop X A (nat (test_episodes A)) 0
       (call_load_ckpt X (seed_if_truthy X (seed A) (init_lstate self x)))"
  using assms by (simp add: learn_def Let_def)

lemma learn_unknown:
  assumes "mode A \<noteq> ''train''" and "mode A \<noteq> ''test''"
  shows "learn X self x A = emit PrintUnknownMode (seed_if_truthy X (seed A) (init_lstate self x))"
  using assms by (simp add: learn_def Let_def)


lemma learn_test_trace:
  assumes "mode A = ''test''"
  shows "\<exists>evs. trace (learn X self x A) = seed_events (seed A) @ LoadCkpt # evs
          \<and> (\<forall>e\<in>set evs. loop_event e \<and> \<not> is_file_io e)"
    and "raised (learn X self x A) = None"
    and "reward_buffer (learn X self x A) = []"
proof -
  let ?st0 = "call_load_ckpt X (seed_if_truthy X (seed A) (init_lstate self x))"
  note f = test_loop_frame [of X A "nat (test_episodes A)" 0 ?st0]
  have t0: "trace ?st0 = seed_events (seed A) @ [LoadCkpt]" "raised ?st0 = None"
    "reward_buffer ?st0 = []"
    by (simp_all add: call_load_ckpt_def emit_def seed_if_truthy_fields init_fields)
  show "\<exists>evs. trace (learn X self x A) = seed_events (seed A) @ LoadCkpt # evs
          \<and> (\<forall>e\<in>set evs. loop_event e \<and> \<not> is_file_io e)"
    using f t0 by (auto simp: learn_test [OF assms])
  show "raised (learn X self x A) = None" using f t0 by (simp add: learn_test [OF assms])
  show "reward_buffer (learn X self x A) = []" using f t0 by (simp add: learn_test [OF assms])
qed

lemma learn_unknown_fields:
  assumes "mode A \<noteq> ''train''" and "mode A \<noteq> ''test''"
  shows "trace (learn X self x A) = seed_events (seed A) @ [PrintUnknownMode]"
    and "agent (learn X self x A) = self"
    and "raised (learn X self x A) = None"
    and "running_reward (learn X self x A) = None"
    and "reward_buffer (learn X self x A) = []"
    and "\<not> truthy (seed A) \<Longrightarrow> world (learn X self x A) = x"
  by (simp_all add: learn_unknown [OF assms] emit_def seed_if_truthy_fields init_fields
      seed_if_truthy_falsy)

subsection \<open>The arguments a run reads\<close>













subsection \<open>Runs on the small environment\<close>

lemmas run_defs =
  learn_def init_lstate_def seed_if_truthy_def seed_all_def train_episode_def test_episode_def
  save_if_due_def call_defs update_def store_transition_def choose_action_def
  choose_action_greedy_def save_def load_ckpt_def running_reward_try_except_def
  running_reward_try_def Let_def

lemmas toy_defs = toy_def toy_pg_def toy_args_def default_args_def

lemma toy_train_run:
  "learn toy toy_pg 0 toy_args =
     \<lparr>world = 2, agent = \<lparr>model = 2, optimizer = 2, buffer = []\<rparr>,
      trace =
        [EnvReset, ChooseAction, EnvStep False, StoreTransition,
         ChooseAction, EnvStep True, StoreTransition, PrintEpisode 1 2 1, Update,
         EnvReset, ChooseAction, EnvStep False, StoreTransition,
         ChooseAction, EnvStep True, StoreTransition, PrintEpisode 2 2 3, Update, Save,
         PlotSaveLog [1, 51 / 50]],
      running_reward = Some (51 / 50), reward_buffer = [1, 51 / 50], raised = None\<rparr>"
  by (simp add: run_defs toy_defs eval_nat_numeral)

lemma toy_test_run:
  "learn toy toy_pg 0 (toy_args\<lparr>mode := ''test'', render := True, seed := Some 7\<rparr>) =
     \<lparr>world = 2, agent = toy_pg,
      trace =
        [NpRandomSeed 7, TfRandomSetSeed 7, EnvSeed 7, LoadCkpt,
         EnvReset, EnvRender, ChooseActionGreedy, EnvStep False,
         EnvRender, ChooseActionGreedy, EnvStep True, PrintEpisode 0 1 1],
      running_reward = Some 1, reward_buffer = [], raised = None\<rparr>"
  by (simp add: run_defs toy_defs eval_nat_numeral)

lemma toy_unknown_mode_run:
  "learn toy toy_pg 0 (toy_args\<lparr>mode := ''eval'', seed := Some 7\<rparr>) =
     \<lparr>world = 0, agent = toy_pg,
      trace = [NpRandomSeed 7, TfRandomSetSeed 7, EnvSeed 7, PrintUnknownMode],
      running_reward = None, reward_buffer = [], raised = None\<rparr>"
  by (simp add: run_defs toy_defs)






subsection \<open>The train run that completes\<close>













text \<open>
  Claim C4.  The running reward is initialised through the bare \<open>except\<close>: while the name
  is unbound the body of the \<open>try\<close> raises, the exception is caught and the running reward
  becomes the episode's reward sum; once it is bound it becomes
  \<open>0.99 * previous + 0.01 * ep_rs_sum\<close>.  So, in train and test mode alike, the running
  reward of a run follows that recurrence over the reward sums of its episodes, the first
  being the first sum, and in train mode the reward buffer lists its values; no
  \<open>UnboundLocalError\<close> leaves \<open>learn\<close>, and test mode raises nothing at all.
\<close>

theorem running_reward_initialised_by_except:
  "running_reward_try None s = Inl UnboundLocalError
   \<and> running_reward_try_except None s = s
   \<and> running_reward_try_except (Some v) s = 99 / 100 * v + 1 / 100 * s
   \<and> running_reward (learn X self x A) =
       last_option (spec_running_rewards (episode_sums (trace (learn X self x A))))
   \<and> (mode A = ''train'' \<longrightarrow>
        reward_buffer (learn X self x A) =
          spec_running_rewards (episode_sums (trace (learn X self x A))))
   \<and> raised (learn X self x A) \<noteq> Some UnboundLocalError
   \<and> (mode A = ''test'' \<longrightarrow> raised (learn X self x A) = None)"
proof -
  define st0 where "st0 = seed_if_truthy X (seed A) (init_lstate self x)"
  have i0: "running_reward st0 = last_option (spec_running_rewards (episode_sums (trace st0)))"
    "reward_buffer st0 = spec_running_rewards (episode_sums (trace st0))"
    "raised st0 = None"
    by (simp_all add: st0_def seed_if_truthy_fields init_fields filter_seed_events
        last_option_def)
  have train: "running_reward (learn X self x A) =
       last_option (spec_running_rewards (episode_sums (trace (learn X self x A))))
     \<and> reward_buffer (learn X self x A) =
          spec_running_rewards (episode_sums (trace (learn X self x A)))
     \<and> raised (learn X self x A) \<noteq> Some UnboundLocalError"
    if m: "mode A = ''train''"
  proof -
    define st where "st = train_loop X A (nat (train_episodes A)) 1 st0"
    note inv = train_loop_invariant [OF i0(1,2), of X A "nat (train_episodes A)" 1,
        folded st_def]
    have r: "raised st \<noteq> Some UnboundLocalError"
      using train_loop_raised [of X A "nat (train_episodes A)" 1 st0] i0(3)
      by (auto simp: st_def)
    have l: "learn X self x A = (if raised st \<noteq> None then st else call_plot_save_log X st)"
      by (simp add: learn_train [OF m] Let_def st_def st0_def)
    show ?thesis
    proof (cases "raised st = None")
      case True
      then have "learn X self x A = call_plot_save_log X st" using l by simp
      then show ?thesis
        using inv True
        by (simp add: call_plot_save_log_def emit_def episode_sums_append)
           (simp add: episode_sums_def)
    next
      case False
      then have "learn X self x A = st" using l by simp
      then show ?thesis using inv r by simp
    qed
  qed
  have test: "running_reward (learn X self x A) =
       last_option (spec_running_rewards (episode_sums (trace (learn X self x A))))
     \<and> raised (learn X self x A) = None"
    if m: "mode A = ''test''"
  proof -
    have "running_reward (call_load_ckpt X st0) =
        last_option (spec_running_rewards (episode_sums (trace (call_load_ckpt X st0))))"
      using i0(1) by (simp add: call_load_ckpt_def emit_def episode_sums_append)
        (simp add: episode_sums_def)
    from test_loop_invariant [OF this, of X A "nat (test_episodes A)" 0]
    show ?thesis
      using learn_test_trace(2) [OF m, of X self x]
      by (simp add: learn_test [OF m] st0_def)
  qed
  have other: "running_reward (learn X self x A) =
       last_option (spec_running_rewards (episode_sums (trace (learn X self x A))))
     \<and> raised (learn X self x A) = None"
    if "mode A \<noteq> ''train''" "mode A \<noteq> ''test''"
    by (simp add: learn_unknown_fields [OF that] episode_sums_append filter_seed_events
        last_option_def) (simp add: episode_sums_def)
  have "running_reward_try None s = Inl UnboundLocalError"
    by (simp add: running_reward_try_def)
  then show ?thesis
    using train test other running_reward_try_except_simps(1) [of s]
      running_reward_try_except_simps(2) [of v s]
    by (cases "mode A = ''train''"; cases "mode A = ''test''") auto
qed

theorem running_reward_initialised_by_except_witness:
  "episode_sums (trace (learn toy toy_pg 0 toy_args)) = [1, 3]
   \<and> reward_buffer (learn toy toy_pg 0 toy_args) = [1, 99 / 100 * 1 + 1 / 100 * 3]
   \<and> running_reward (learn toy toy_pg 0 toy_args) = Some (51 / 50)
   \<and> running_reward
       (learn toy toy_pg 0 (toy_args\<lparr>mode := ''test'', render := True, seed := Some 7\<rparr>)) = Some 1"
  using running_reward_initialised_by_except [of 0 0 toy toy_pg 0 toy_args]
    running_reward_initialised_by_except
      [of 0 0 toy toy_pg 0 "toy_args\<lparr>mode := ''test'', render := True, seed := Some 7\<rparr>"]
  by (simp add: toy_train_run toy_test_run episode_sums_def)

end
